theory Spec2Isabelle
  imports Complex_Main "HOL-Library.Product_Lexorder" "HOL-Library.List_Lexorder"
    "HOL-Library.Char_ord" "HOL-Library.Multiset"
begin

section \<open>Scheduler (spacedRep.js)\<close>

text \<open>
  JavaScript numbers are modelled exactly: \<open>ease\<close> is a real number, \<open>interval\<close>,
  \<open>repetitions\<close>, grades and timestamps (milliseconds) are integers. IEEE rounding of the
  arithmetic on \<open>ease\<close> is not modelled. \<open>Math.round x\<close> is \<open>\<lfloor>x + 1/2\<rfloor>\<close>, which is
  \<^const>\<open>round\<close>. \<open>Date.now()\<close> is the explicit argument \<open>now\<close>.
\<close>

text \<open>
  Errors as values. \<open>TypeError\<close> is what JavaScript throws when a property of
  \<open>undefined\<close> is read or destructured. \<open>InvalidGrade\<close> is the error kind the
  specification names; no path of the code constructs it.
\<close>

datatype js_error = TypeError | InvalidGrade

record stats =
  ease :: real
  interval :: int
  dueAt :: int
  repetitions :: int
  lastReviewed :: "int option"

definition GRADES_AGAIN :: int where "GRADES_AGAIN = 1"
definition GRADES_HARD :: int where "GRADES_HARD = 2"
definition GRADES_GOOD :: int where "GRADES_GOOD = 3"
definition GRADES_EASY :: int where "GRADES_EASY = 4"

definition MIN_EASE :: real where "MIN_EASE = 13 / 10"

definition DEFAULT_INTERVALS_FIRST :: int where "DEFAULT_INTERVALS_FIRST = 1"
definition DEFAULT_INTERVALS_SECOND :: int where "DEFAULT_INTERVALS_SECOND = 6"

text \<open>
  \<open>calculateSM2(stats, grade)\<close>. The argument is \<open>card.stats\<close>, which may be absent
  (\<open>None\<close>): destructuring it then throws. The final \<open>else if\<close> chain has no \<open>else\<close>:
  a grade that is none of the four constants leaves interval and ease as computed so far.
\<close>

definition calculateSM2 :: "int \<Rightarrow> stats option \<Rightarrow> int \<Rightarrow> js_error + stats" where
  "calculateSM2 now st grade =
     (case st of
        None \<Rightarrow> Inl TypeError
      | Some s \<Rightarrow>
          (if grade = GRADES_AGAIN then
             Inr \<lparr> ease = max MIN_EASE (ease s - 2 / 10),
                   interval = 1,
                   dueAt = now + 1 * 24 * 60 * 60 * 1000,
                   repetitions = 0,
                   lastReviewed = Some now \<rparr>
           else
             let newRepetitions = repetitions s + 1;
                 newInterval0 =
                   (if newRepetitions = 1 then DEFAULT_INTERVALS_FIRST
                    else if newRepetitions = 2 then DEFAULT_INTERVALS_SECOND
                    else round (of_int (interval s) * ease s));
                 newInterval =
                   (if grade = GRADES_HARD then max 1 (round (of_int newInterval0 * (8 / 10 :: real)))
                    else if grade = GRADES_GOOD then newInterval0
                    else if grade = GRADES_EASY then round (of_int newInterval0 * (13 / 10 :: real))
                    else newInterval0);
                 newEase =
                   (if grade = GRADES_HARD then max MIN_EASE (ease s - 15 / 100)
                    else if grade = GRADES_GOOD then ease s
                    else if grade = GRADES_EASY then ease s + 15 / 100
                    else ease s)
             in Inr \<lparr> ease = newEase,
                      interval = newInterval,
                      dueAt = now + newInterval * 24 * 60 * 60 * 1000,
                      repetitions = newRepetitions,
                      lastReviewed = Some now \<rparr>))"

section \<open>Cache key (tts.js)\<close>

text \<open>
  \<open>getCacheKey(text, voiceId)\<close>: \<open>text.substring(0, 100)\<close>, a hyphen, and the voice id.
  A string is the list of its code units, so \<open>substring(0, 100)\<close> is \<open>take 100\<close>.
\<close>

definition getCacheKey :: "string \<Rightarrow> string \<Rightarrow> string" where
  "getCacheKey text voiceId = (let shortText = take 100 text in shortText @ ''-'' @ voiceId)"

section \<open>Learn session persistence (storage.js)\<close>

text \<open>
  The learn session as \<open>createLearnSession\<close> (state.js) builds it. Card identifiers are
  strings, \<open>currentQuestionId\<close> is \<open>null\<close> (\<open>None\<close>) until the first question is shown.
  \<open>batchHistory\<close> is created empty and never written through the session.
\<close>

record session =
  version :: int
  setId :: string
  unseenIds :: "string list"
  masteredIds :: "string list"
  currentQuestionId :: "string option"
  questionsAnswered :: int
  correctCount :: int
  mode :: string
  batchHistory :: "string list"
  startedAt :: int
  savedAt :: int

definition createLearnSession :: "int \<Rightarrow> string \<Rightarrow> string list \<Rightarrow> string \<Rightarrow> session" where
  "createLearnSession now sid cardIds m =
     \<lparr> version = 1, setId = sid, unseenIds = cardIds, masteredIds = [],
       currentQuestionId = None, questionsAnswered = 0, correctCount = 0, mode = m,
       batchHistory = [], startedAt = now, savedAt = now \<rparr>"

text \<open>
  \<open>localStorage\<close>, restricted to the item under the key \<open>studyset_learn_session\<close>.
  The item is a text: either the JSON text of a session (\<open>JSON.parse\<close> of
  \<open>JSON.stringify s\<close> gives back \<open>s\<close> for these plain fields, so the text is
  represented by the session it denotes) or a text that \<open>JSON.parse\<close> rejects.
  \<open>setItem\<close> throws when the quota is exceeded; \<open>getItem\<close> and \<open>removeItem\<close> do not throw.
\<close>

datatype item = Json session | Malformed

record local_storage =
  LEARN_SESSION :: "item option"
  quota_exceeded :: bool

text \<open>
  \<open>saveLearnSession(session)\<close>: an absent session removes the item; otherwise the
  session is written with \<open>savedAt\<close> overwritten by the current time. The \<open>catch\<close>
  branch returns \<open>false\<close> and leaves the storage as it was.
\<close>

definition saveLearnSession ::
  "int \<Rightarrow> session option \<Rightarrow> local_storage \<Rightarrow> bool \<times> local_storage" where
  "saveLearnSession now sess ls =
     (case sess of
        None \<Rightarrow> (True, ls\<lparr>LEARN_SESSION := None\<rparr>)
      | Some s \<Rightarrow>
          (let data = s\<lparr>savedAt := now\<rparr>
           in if quota_exceeded ls then (False, ls)
              else (True, ls\<lparr>LEARN_SESSION := Some (Json data)\<rparr>)))"

text \<open>
  \<open>loadLearnSession()\<close>: no item gives \<open>null\<close>; a session saved more than seven days
  (in milliseconds) before \<open>now\<close> is removed and \<open>null\<close> is returned; a text that does not
  parse lands in the \<open>catch\<close> branch, which returns \<open>null\<close>.
\<close>

definition loadLearnSession :: "int \<Rightarrow> local_storage \<Rightarrow> session option \<times> local_storage" where
  "loadLearnSession now ls =
     (case LEARN_SESSION ls of
        None \<Rightarrow> (None, ls)
      | Some Malformed \<Rightarrow> (None, ls)
      | Some (Json s) \<Rightarrow>
          (if now - savedAt s > 7 * 24 * 60 * 60 * 1000
           then (None, ls\<lparr>LEARN_SESSION := None\<rparr>)
           else (Some s, ls)))"

definition clearLearnSessionStorage :: "local_storage \<Rightarrow> local_storage" where
  "clearLearnSessionStorage ls = ls\<lparr>LEARN_SESSION := None\<rparr>"

section \<open>Audio cache (storage.js)\<close>

text \<open>
  An entry of the IndexedDB object store \<open>audio\<close>. A \<open>Blob\<close> is represented by an opaque
  tag for its content and by its \<open>size\<close> property, a number of bytes.
\<close>

record audio_blob =
  blob_tag :: nat
  blob_size :: nat

record entry =
  key :: string
  blob :: audio_blob
  entry_size :: nat
  accessedAt :: int

text \<open>
  The object store has \<open>keyPath: 'key'\<close>: it holds at most one entry per key, and
  \<open>store.put\<close> replaces the entry of the same key. It is a list of entries here;
  \<open>put_rejected\<close> says that the environment rejects a \<open>put\<close> request (the promise in
  \<open>setCachedAudio\<close> then rejects and the \<open>catch\<close> branch runs). The variable \<open>audioDB\<close>
  is \<open>null\<close> (\<open>None\<close>) until \<open>initAudioDB\<close> succeeds.
\<close>

record audio_db =
  store :: "entry list"
  put_rejected :: bool

definition store_put :: "entry \<Rightarrow> entry list \<Rightarrow> entry list" where
  "store_put e st = filter (\<lambda>x. key x \<noteq> key e) st @ [e]"

definition store_delete :: "string \<Rightarrow> entry list \<Rightarrow> entry list" where
  "store_delete k st = filter (\<lambda>x. key x \<noteq> k) st"

text \<open>
  \<open>store.index('accessedAt').openCursor()\<close> walks the entries by ascending \<open>accessedAt\<close>,
  entries of the same \<open>accessedAt\<close> by ascending primary key.
\<close>

definition index_cursor :: "entry list \<Rightarrow> entry list" where
  "index_cursor st = sort_key (\<lambda>e. (accessedAt e, key e)) st"

definition total_size :: "entry list \<Rightarrow> int" where
  "total_size es = sum_list (map (\<lambda>e. int (entry_size e)) es)"

text \<open>
  The \<open>for (const entry of entries)\<close> loop of \<open>evictOldAudioEntries\<close>: it stops as soon
  as what is left is at most \<open>maxBytes * 0.8\<close>, and otherwise deletes the entry and
  adds its size to \<open>removed\<close>. Sizes are whole numbers of bytes and the product
  \<open>maxBytes * 0.8\<close> is the exact one.
\<close>

fun evict_loop :: "int \<Rightarrow> int \<Rightarrow> int \<Rightarrow> entry list \<Rightarrow> entry list \<Rightarrow> entry list" where
  "evict_loop maxBytes totalSize removed [] st = st"
| "evict_loop maxBytes totalSize removed (e # es) st =
     (if real_of_int (totalSize - removed) \<le> real_of_int maxBytes * (8 / 10) then st
      else evict_loop maxBytes totalSize (removed + int (entry_size e)) es
             (store_delete (key e) st))"

text \<open>
  \<open>evictOldAudioEntries(maxSizeMB)\<close> on the object store: the cursor collects the entries
  and their total size; the loop runs only when the total exceeds \<open>maxBytes\<close>. The budget
  is a number of megabytes (the callers pass \<open>ttsState.cacheSize || 50\<close>).
\<close>

definition evictOldAudioEntries :: "nat \<Rightarrow> entry list \<Rightarrow> entry list" where
  "evictOldAudioEntries maxSizeMB st =
     (let maxBytes = int maxSizeMB * 1024 * 1024;
          entries = index_cursor st;
          totalSize = total_size entries
      in if totalSize > maxBytes then evict_loop maxBytes totalSize 0 entries st else st)"

text \<open>
  \<open>setCachedAudio(key, blob, maxSizeMB)\<close>: \<open>false\<close> without a database or when the \<open>put\<close>
  is rejected; otherwise the entry is written with the current time and the eviction runs.
\<close>

definition setCachedAudio ::
  "int \<Rightarrow> string \<Rightarrow> audio_blob \<Rightarrow> nat \<Rightarrow> audio_db option \<Rightarrow> bool \<times> audio_db option" where
  "setCachedAudio now k b maxSizeMB audioDB =
     (case audioDB of
        None \<Rightarrow> (False, None)
      | Some db \<Rightarrow>
          (if put_rejected db then (False, Some db)
           else
             let st1 = store_put \<lparr> key = k, blob = b, entry_size = blob_size b, accessedAt = now \<rparr>
                         (store db)
             in (True, Some (db\<lparr>store := evictOldAudioEntries maxSizeMB st1\<rparr>))))"

section \<open>Cards, sets and the application state (state.js)\<close>

text \<open>
  A card as \<open>createCard\<close> builds it (\<open>term\<close> and \<open>definition\<close> are named \<open>card_term\<close> and
  \<open>card_definition\<close>). \<open>stats\<close> is optional: data saved before schema version 2 has
  cards without it (\<open>migrateState\<close> adds it), and \<open>isCardDue\<close> tests for it. The \<open>meta\<close>
  timestamps are left out.
\<close>

record card =
  uuid :: string
  card_term :: string
  card_definition :: string
  starred :: bool
  masteryLevel :: int
  stats :: "stats option"

record study_set =
  set_uuid :: string
  cards :: "card list"

record app_state =
  allSets :: "string \<rightharpoonup> study_set"
  activeSetId :: "string option"
  learnSession :: "session option"

definition getActiveSet :: "app_state \<Rightarrow> study_set option" where
  "getActiveSet app =
     (case activeSetId app of
        None \<Rightarrow> None
      | Some i \<Rightarrow> if i = [] then None else allSets app i)"

text \<open>
  \<open>updateCard(setId, cardId, updates)\<close>: the first card of the set with that uuid is
  replaced by its merge with \<open>updates\<close>, here a function on cards; an unknown set or
  card changes nothing.
\<close>

fun update_first :: "('a \<Rightarrow> bool) \<Rightarrow> ('a \<Rightarrow> 'a) \<Rightarrow> 'a list \<Rightarrow> 'a list" where
  "update_first P f [] = []"
| "update_first P f (x # xs) = (if P x then f x # xs else x # update_first P f xs)"

definition updateCard :: "string \<Rightarrow> string \<Rightarrow> (card \<Rightarrow> card) \<Rightarrow> app_state \<Rightarrow> app_state" where
  "updateCard sid cid updates app =
     (case allSets app sid of
        None \<Rightarrow> app
      | Some st \<Rightarrow>
          app\<lparr>allSets := (allSets app)
                 (sid \<mapsto> st\<lparr>cards := update_first (\<lambda>c. uuid c = cid) updates (cards st)\<rparr>)\<rparr>)"

section \<open>Due queries (spacedRep.js and state.js)\<close>

text \<open>
  \<open>isCardDue(card)\<close>: \<open>!card.stats || !card.stats.dueAt\<close> holds for absent stats and for
  a \<open>dueAt\<close> of 0.
\<close>

definition isCardDue :: "int \<Rightarrow> card \<Rightarrow> bool" where
  "isCardDue now c =
     (case stats c of
        None \<Rightarrow> True
      | Some s \<Rightarrow> if dueAt s = 0 then True else dueAt s \<le> now)"

text \<open>\<open>getDueCards(cards)\<close> of spacedRep.js, imported by app.js as \<open>getDueCardsFromArray\<close>.\<close>

definition getDueCardsFromArray :: "int \<Rightarrow> card list \<Rightarrow> card list" where
  "getDueCardsFromArray now cs = filter (isCardDue now) cs"

text \<open>
  \<open>getDueCards(setId)\<close> of state.js filters with \<open>card => card.stats.dueAt <= now\<close>.
  The callback reads \<open>dueAt\<close> of \<open>card.stats\<close> without a test: on a card without stats
  the read throws a \<open>TypeError\<close>, which ends the whole call.
\<close>

fun filter_dueAt :: "int \<Rightarrow> card list \<Rightarrow> js_error + card list" where
  "filter_dueAt now [] = Inr []"
| "filter_dueAt now (c # cs) =
     (case stats c of
        None \<Rightarrow> Inl TypeError
      | Some s \<Rightarrow>
          (case filter_dueAt now cs of
             Inl e \<Rightarrow> Inl e
           | Inr due \<Rightarrow> Inr (if dueAt s \<le> now then c # due else due)))"

definition getDueCards :: "int \<Rightarrow> string \<Rightarrow> app_state \<Rightarrow> js_error + card list" where
  "getDueCards now sid app =
     (case allSets app sid of
        None \<Rightarrow> Inr []
      | Some st \<Rightarrow> filter_dueAt now (cards st))"

section \<open>Learn mode handlers (app.js)\<close>

text \<open>
  \<open>array.splice(start, 0, x)\<close>: a negative \<open>start\<close> counts from the end, a \<open>start\<close>
  beyond the end is the end.
\<close>

definition splice_insert :: "int \<Rightarrow> 'a \<Rightarrow> 'a list \<Rightarrow> 'a list" where
  "splice_insert start x xs =
     (let len = int (length xs);
          i = (if start < 0 then max (len + start) 0 else min start len)
      in take (nat i) xs @ [x] @ drop (nat i) xs)"

text \<open>
  The session update that \<open>handleGrade\<close> and \<open>handleMultipleChoiceAnswer\<close> both contain,
  statement for statement: \<open>questionsAnswered++\<close>, then on a correct answer the front of
  \<open>unseenIds\<close> is shifted out, the card's uuid is pushed on \<open>masteredIds\<close> and
  \<open>correctCount++\<close>; on a wrong answer the front is shifted out and the card's uuid is
  spliced in at \<open>Math.min(unseenIds.length, Math.floor(Math.random() * 3) + 2)\<close>.
  \<open>u\<close> is the value of \<open>Math.random()\<close>; \<open>shift\<close> on an empty array does nothing
  (\<open>tl [] = []\<close>).
\<close>

definition updateSession :: "real \<Rightarrow> bool \<Rightarrow> string \<Rightarrow> session \<Rightarrow> session" where
  "updateSession u isCorrect cardUuid session =
     (let s1 = session\<lparr>questionsAnswered := questionsAnswered session + 1\<rparr>
      in if isCorrect then
           s1\<lparr>unseenIds := tl (unseenIds s1),
              masteredIds := masteredIds s1 @ [cardUuid],
              correctCount := correctCount s1 + 1\<rparr>
         else
           let rest = tl (unseenIds s1);
               insertIndex = min (int (length rest)) (\<lfloor>u * 3\<rfloor> + 2)
           in s1\<lparr>unseenIds := splice_insert insertIndex cardUuid rest\<rparr>)"

text \<open>
  \<open>handleGrade(grade)\<close> on the application state: nothing happens without a session, an
  active set or the current card in it; \<open>calculateSM2\<close> throws on a card without stats,
  before anything is changed. Analytics, batch history, rendering and the writes to
  \<open>localStorage\<close> are outside this state.
\<close>

definition handleGrade :: "int \<Rightarrow> real \<Rightarrow> int \<Rightarrow> app_state \<Rightarrow> js_error + app_state" where
  "handleGrade now u grade app =
     (case learnSession app of
        None \<Rightarrow> Inr app
      | Some session \<Rightarrow>
          (case getActiveSet app of
             None \<Rightarrow> Inr app
           | Some st \<Rightarrow>
               (case find (\<lambda>c. Some (uuid c) = currentQuestionId session) (cards st) of
                  None \<Rightarrow> Inr app
                | Some crd \<Rightarrow>
                    (case calculateSM2 now (stats crd) grade of
                       Inl e \<Rightarrow> Inl e
                     | Inr newStats \<Rightarrow>
                         let app1 = updateCard (set_uuid st) (uuid crd)
                                      (\<lambda>c. c\<lparr>stats := Some newStats\<rparr>) app
                         in Inr (app1\<lparr>learnSession :=
                                   Some (updateSession u (grade \<ge> GRADES_GOOD) (uuid crd) session)\<rparr>)))))"

text \<open>
  \<open>handleMultipleChoiceAnswer(isCorrect, ...)\<close>: the card's \<open>masteryLevel\<close> is incremented
  or reset, no SM-2 statistics are touched.
\<close>

definition handleMultipleChoiceAnswer :: "real \<Rightarrow> bool \<Rightarrow> app_state \<Rightarrow> app_state" where
  "handleMultipleChoiceAnswer u isCorrect app =
     (case learnSession app of
        None \<Rightarrow> app
      | Some session \<Rightarrow>
          (case getActiveSet app of
             None \<Rightarrow> app
           | Some st \<Rightarrow>
               (case find (\<lambda>c. Some (uuid c) = currentQuestionId session) (cards st) of
                  None \<Rightarrow> app
                | Some crd \<Rightarrow>
                    let level = (if isCorrect then masteryLevel crd + 1 else 0);
                        app1 = updateCard (set_uuid st) (uuid crd)
                                 (\<lambda>c. c\<lparr>masteryLevel := level\<rparr>) app
                    in app1\<lparr>learnSession :=
                              Some (updateSession u isCorrect (uuid crd) session)\<rparr>)))"

section \<open>Pre-cache coordinator (tts.js)\<close>

record tts_state =
  usePremium :: bool
  elevenLabsKey :: string
  selectedVoiceId :: string
  cacheSize :: nat

text \<open>The module variables \<open>preCacheQueue\<close> and \<open>isPreCaching\<close>.\<close>

record tts_module =
  preCacheQueue :: "card list"
  isPreCaching :: bool

text \<open>
  The part of \<open>processPreCacheQueue()\<close> that runs before its first \<open>await\<close>: an empty
  queue clears \<open>isPreCaching\<close>; otherwise \<open>isPreCaching\<close> is set and the first card is
  shifted out, to be looked up and fetched. The result names that card. What follows the
  \<open>await\<close> (cache lookup, fetch, \<open>setCachedAudio\<close>, the timer for the next card) is not
  modelled.
\<close>

definition processPreCacheQueue_begin :: "tts_module \<Rightarrow> tts_module \<times> card option" where
  "processPreCacheQueue_begin m =
     (case preCacheQueue m of
        [] \<Rightarrow> (m\<lparr>isPreCaching := False\<rparr>, None)
      | c # rest \<Rightarrow> (m\<lparr>isPreCaching := True, preCacheQueue := rest\<rparr>, Some c))"

text \<open>
  \<open>preCacheCards(cards)\<close>: without premium synthesis nothing happens. Otherwise
  \<open>preCacheQueue\<close> is assigned the cards that are non-null and have a non-empty term,
  and \<open>processPreCacheQueue\<close> is called unless \<open>isPreCaching\<close> is set. The second
  component is the card whose processing this call started, if any.
\<close>

definition preCacheCards ::
  "tts_state \<Rightarrow> card option list \<Rightarrow> tts_module \<Rightarrow> tts_module \<times> card option" where
  "preCacheCards ttsState cs m =
     (if \<not> usePremium ttsState \<or> elevenLabsKey ttsState = [] then (m, None)
      else
        let m1 = m\<lparr>preCacheQueue :=
                     List.map_filter
                       (\<lambda>c. case c of None \<Rightarrow> None
                                     | Some x \<Rightarrow> if card_term x \<noteq> [] then Some x else None) cs\<rparr>
        in if \<not> isPreCaching m1 then processPreCacheQueue_begin m1 else (m1, None))"

section \<open>Example states\<close>

definition example_card :: "string \<Rightarrow> stats option \<Rightarrow> card" where
  "example_card i st =
     \<lparr> uuid = i, card_term = ''term '' @ i, card_definition = ''definition '' @ i,
       starred = False, masteryLevel = 0, stats = st \<rparr>"

definition fresh_stats :: "int \<Rightarrow> stats" where
  "fresh_stats now =
     \<lparr> ease = 25 / 10, interval = 1, dueAt = now, repetitions = 0, lastReviewed = None \<rparr>"

definition example_set :: study_set where
  "example_set =
     \<lparr> set_uuid = ''set1'',
       cards = [example_card ''a'' (Some (fresh_stats 5)), example_card ''b'' (Some (fresh_stats 6)),
                example_card ''c'' (Some (fresh_stats 7))] \<rparr>"

definition example_session :: session where
  "example_session =
     (createLearnSession 100 ''set1'' [''a'', ''b'', ''c''] ''all'')\<lparr>currentQuestionId := Some ''a''\<rparr>"

definition example_app :: app_state where
  "example_app =
     \<lparr> allSets = [''set1'' \<mapsto> example_set], activeSetId = Some ''set1'',
       learnSession = Some example_session \<rparr>"

definition example_tts :: tts_state where
  "example_tts =
     \<lparr> usePremium = True, elevenLabsKey = ''sk_0123456789abcdef'',
       selectedVoiceId = ''21m00Tcm4TlvDq8ikWAM'', cacheSize = 50 \<rparr>"

section \<open>Results\<close>

lemmas grade_defs = GRADES_AGAIN_def GRADES_HARD_def GRADES_GOOD_def GRADES_EASY_def

text \<open>
  C1. For every stats record with ease at least 1.3 and every grade among 1 (Again),
  2 (Hard), 3 (Good) and 4 (Easy), \<open>calculateSM2\<close> returns a record, and its ease is at
  least 1.3.
\<close>

theorem calculateSM2_ease_floor:
  assumes "13 / 10 \<le> ease s" and "grade \<in> {1, 2, 3, 4}"
  shows "\<exists>r. calculateSM2 now (Some s) grade = Inr r \<and> 13 / 10 \<le> ease r"
proof -
  from assms(2) consider "grade = 1" | "grade = 2" | "grade = 3" | "grade = 4"
    by auto
  then show ?thesis
  proof cases
    case 1
    then show ?thesis
      by (simp add: calculateSM2_def grade_defs MIN_EASE_def max_def)
  next
    case 2
    then show ?thesis
      by (simp add: calculateSM2_def grade_defs Let_def MIN_EASE_def max_def)
  next
    case 3
    with assms(1) show ?thesis
      by (simp add: calculateSM2_def grade_defs Let_def)
  next
    case 4
    with assms(1) show ?thesis
      by (simp add: calculateSM2_def grade_defs Let_def)
  qed
qed

theorem calculateSM2_ease_floor_witness:
  "(13 / 10 :: real) \<le> 25 / 10 \<and> (2 :: int) \<in> {1, 2, 3, 4} \<and>
   (\<exists>r. calculateSM2 1000
          (Some \<lparr> ease = 25 / 10, interval = 6, dueAt = 0, repetitions = 2, lastReviewed = None \<rparr>)
          2 = Inr r \<and> 13 / 10 \<le> ease r)"
  using calculateSM2_ease_floor
    [of "\<lparr> ease = 25 / 10, interval = 6, dueAt = 0, repetitions = 2, lastReviewed = None \<rparr>" 2 1000]
  by simp


text \<open>
  C2. The claim: a grade outside 1..4 makes \<open>calculateSM2\<close> fail with \<open>InvalidGrade\<close>.
  The code has no such check: a fresh card graded 5 gets a result, the one of a
  first successful review.
\<close>

theorem calculateSM2_grade5_returns:
  "calculateSM2 1000
     (Some \<lparr> ease = 25 / 10, interval = 1, dueAt = 0, repetitions = 0, lastReviewed = None \<rparr>) 5
     \<noteq> Inl InvalidGrade \<and>
   calculateSM2 1000
     (Some \<lparr> ease = 25 / 10, interval = 1, dueAt = 0, repetitions = 0, lastReviewed = None \<rparr>) 5
     = Inr \<lparr> ease = 25 / 10, interval = 1, dueAt = 86401000, repetitions = 1,
             lastReviewed = Some 1000 \<rparr>"
  by (simp add: calculateSM2_def grade_defs Let_def DEFAULT_INTERVALS_FIRST_def)

text \<open>
  C2, amended. For every grade outside 1..4, \<open>calculateSM2\<close> never reports \<open>InvalidGrade\<close>:
  it returns what it returns for Good (3), that is, on a stats record, a record with the
  repetitions incremented, the interval of the repetition rule and the ease unchanged.
\<close>

theorem calculateSM2_out_of_range_grade:
  assumes "grade \<notin> {1, 2, 3, 4}"
  shows "calculateSM2 now st grade \<noteq> Inl InvalidGrade \<and>
         calculateSM2 now st grade = calculateSM2 now st GRADES_GOOD \<and>
         (\<exists>r. calculateSM2 now (Some s) grade = Inr r \<and> ease r = ease s \<and>
              repetitions r = repetitions s + 1 \<and>
              interval r = (if repetitions s + 1 = 1 then 1 else if repetitions s + 1 = 2 then 6
                            else round (of_int (interval s) * ease s)))"
proof -
  from assms have g: "grade \<noteq> 1" "grade \<noteq> 2" "grade \<noteq> 3" "grade \<noteq> 4"
    by auto
  have same: "calculateSM2 now st' grade = calculateSM2 now st' GRADES_GOOD" for st'
    using g by (cases st') (simp_all add: calculateSM2_def grade_defs Let_def)
  have no_err: "calculateSM2 now st GRADES_GOOD \<noteq> Inl InvalidGrade"
    by (cases st) (simp_all add: calculateSM2_def grade_defs Let_def)
  have good: "\<exists>r. calculateSM2 now (Some s) GRADES_GOOD = Inr r \<and> ease r = ease s \<and>
              repetitions r = repetitions s + 1 \<and>
              interval r = (if repetitions s + 1 = 1 then 1 else if repetitions s + 1 = 2 then 6
                            else round (of_int (interval s) * ease s))"
    by (simp add: calculateSM2_def grade_defs Let_def DEFAULT_INTERVALS_FIRST_def
        DEFAULT_INTERVALS_SECOND_def)
  show ?thesis
    using same [of st] same [of "Some s"] no_err good by simp
qed

theorem calculateSM2_out_of_range_grade_witness:
  "(0 :: int) \<notin> {1, 2, 3, 4} \<and>
   calculateSM2 1000
     (Some \<lparr> ease = 2, interval = 6, dueAt = 0, repetitions = 2, lastReviewed = None \<rparr>) 0
   = Inr \<lparr> ease = 2, interval = 12, dueAt = 1036801000, repetitions = 3,
           lastReviewed = Some 1000 \<rparr>"
  using calculateSM2_out_of_range_grade
    [of 0 1000 "Some \<lparr> ease = 2, interval = 6, dueAt = 0, repetitions = 2, lastReviewed = None \<rparr>"]
  by (simp add: calculateSM2_def grade_defs Let_def)

text \<open>
  C9. The claim: the key is the first 100 characters of the text concatenated with the
  voice id. The code puts a hyphen between the two.
\<close>

theorem getCacheKey_has_separator:
  "getCacheKey ''a'' ''v1'' = ''a-v1'' \<and> getCacheKey ''a'' ''v1'' \<noteq> take 100 ''a'' @ ''v1''"
  by (simp add: getCacheKey_def)

text \<open>
  C9, amended. Two texts that agree on their first 100 characters get the same key for
  the same voice, in particular 150 times \<open>a\<close> followed by \<open>X\<close> and by \<open>Y\<close>; the key is
  the first 100 characters of the text, a hyphen, and the voice id.
\<close>

theorem getCacheKey_prefix_collision:
  "(take 100 t1 = take 100 t2 \<longrightarrow> getCacheKey t1 v = getCacheKey t2 v) \<and>
   getCacheKey (replicate 150 CHR ''a'' @ ''X'') ''v1'' =
   getCacheKey (replicate 150 CHR ''a'' @ ''Y'') ''v1'' \<and>
   getCacheKey t v = take 100 t @ ''-'' @ v"
  by (simp add: getCacheKey_def)

theorem getCacheKey_prefix_collision_witness:
  "take 100 (replicate 100 CHR ''b'' @ ''left'') = take 100 (replicate 100 CHR ''b'' @ ''right'') \<and>
   getCacheKey (replicate 100 CHR ''b'' @ ''left'') ''v2'' =
   getCacheKey (replicate 100 CHR ''b'' @ ''right'') ''v2''"
  using getCacheKey_prefix_collision
    [of "replicate 100 CHR ''b'' @ ''left''" "replicate 100 CHR ''b'' @ ''right''" "''v2''"]
  by simp


text \<open>
  C6. The claim: loading after saving gives back the session on every field, \<open>savedAt\<close>
  included. Saving stamps \<open>savedAt\<close> with the time of the save: a session whose
  \<open>savedAt\<close> is 0, saved and loaded at time 5000, comes back with \<open>savedAt\<close> 5000.
\<close>

theorem save_load_changes_savedAt:
  "fst (loadLearnSession 5000
          (snd (saveLearnSession 5000 (Some (createLearnSession 0 ''set1'' [''c1'', ''c2''] ''all''))
                  \<lparr> LEARN_SESSION = None, quota_exceeded = False \<rparr>)))
   \<noteq> Some (createLearnSession 0 ''set1'' [''c1'', ''c2''] ''all'') \<and>
   fst (loadLearnSession 5000
          (snd (saveLearnSession 5000 (Some (createLearnSession 0 ''set1'' [''c1'', ''c2''] ''all''))
                  \<lparr> LEARN_SESSION = None, quota_exceeded = False \<rparr>)))
   = Some ((createLearnSession 0 ''set1'' [''c1'', ''c2''] ''all'')\<lparr>savedAt := 5000\<rparr>)"
  by (simp add: saveLearnSession_def loadLearnSession_def createLearnSession_def)

text \<open>
  C6, amended. For every session \<open>s\<close>, saving it at time \<open>t\<close> into a storage that accepts
  the write and loading it at a time \<open>t'\<close> at most seven days later returns \<open>s\<close> with
  \<open>savedAt\<close> replaced by \<open>t\<close>: every other field (version, setId, unseenIds, masteredIds,
  currentQuestionId, questionsAnswered, correctCount, mode, batchHistory, startedAt) is
  the one of \<open>s\<close>.
\<close>

theorem save_load_roundtrip:
  assumes "\<not> quota_exceeded ls" and "t' - t \<le> 7 * 24 * 60 * 60 * 1000"
  shows "fst (saveLearnSession t (Some s) ls) = True \<and>
         fst (loadLearnSession t' (snd (saveLearnSession t (Some s) ls))) = Some (s\<lparr>savedAt := t\<rparr>)"
  using assms by (simp add: saveLearnSession_def loadLearnSession_def)

theorem save_load_roundtrip_witness:
  "\<not> quota_exceeded \<lparr> LEARN_SESSION = Some Malformed, quota_exceeded = False \<rparr> \<and>
   (90000 :: int) - 4000 \<le> 7 * 24 * 60 * 60 * 1000 \<and>
   fst (loadLearnSession 90000
          (snd (saveLearnSession 4000
                  (Some \<lparr> version = 1, setId = ''s'', unseenIds = [''b'', ''a''], masteredIds = [''c''],
                          currentQuestionId = Some ''b'', questionsAnswered = 3, correctCount = 1,
                          mode = ''due'', batchHistory = [], startedAt = 100, savedAt = 200 \<rparr>)
                  \<lparr> LEARN_SESSION = Some Malformed, quota_exceeded = False \<rparr>)))
   = Some \<lparr> version = 1, setId = ''s'', unseenIds = [''b'', ''a''], masteredIds = [''c''],
            currentQuestionId = Some ''b'', questionsAnswered = 3, correctCount = 1,
            mode = ''due'', batchHistory = [], startedAt = 100, savedAt = 4000 \<rparr>"
  using save_load_roundtrip
    [of "\<lparr> LEARN_SESSION = Some Malformed, quota_exceeded = False \<rparr>" 90000 4000
        "\<lparr> version = 1, setId = ''s'', unseenIds = [''b'', ''a''], masteredIds = [''c''],
           currentQuestionId = Some ''b'', questionsAnswered = 3, correctCount = 1,
           mode = ''due'', batchHistory = [], startedAt = 100, savedAt = 200 \<rparr>"]
  by simp

text \<open>
  C8. For every persisted session, loading it when \<open>now - savedAt\<close> exceeds seven days
  returns absence and removes the stored session (no error is reported); loading it when
  \<open>now - savedAt\<close> is at most seven days returns the session unchanged and leaves the
  storage as it is.
\<close>

theorem loadLearnSession_expiry:
  assumes "LEARN_SESSION ls = Some (Json s)"
  shows "(now - savedAt s > 7 * 24 * 60 * 60 * 1000 \<longrightarrow>
            loadLearnSession now ls = (None, ls\<lparr>LEARN_SESSION := None\<rparr>)) \<and>
         (now - savedAt s \<le> 7 * 24 * 60 * 60 * 1000 \<longrightarrow>
            loadLearnSession now ls = (Some s, ls))"
  using assms by (simp add: loadLearnSession_def)

theorem loadLearnSession_expiry_witness:
  "(1000 + 8 * 86400000) - savedAt (createLearnSession 1000 ''set1'' [''c1'', ''c2''] ''all'')
     > 7 * 24 * 60 * 60 * 1000 \<and>
   (1000 + 6 * 86400000) - savedAt (createLearnSession 1000 ''set1'' [''c1'', ''c2''] ''all'')
     \<le> 7 * 24 * 60 * 60 * 1000 \<and>
   loadLearnSession (1000 + 8 * 86400000)
     \<lparr> LEARN_SESSION = Some (Json (createLearnSession 1000 ''set1'' [''c1'', ''c2''] ''all'')),
       quota_exceeded = False \<rparr>
   = (None, \<lparr> LEARN_SESSION = None, quota_exceeded = False \<rparr>) \<and>
   loadLearnSession (1000 + 6 * 86400000)
     \<lparr> LEARN_SESSION = Some (Json (createLearnSession 1000 ''set1'' [''c1'', ''c2''] ''all'')),
       quota_exceeded = False \<rparr>
   = (Some (createLearnSession 1000 ''set1'' [''c1'', ''c2''] ''all''),
      \<lparr> LEARN_SESSION = Some (Json (createLearnSession 1000 ''set1'' [''c1'', ''c2''] ''all'')),
        quota_exceeded = False \<rparr>)"
  using
    loadLearnSession_expiry
      [of "\<lparr> LEARN_SESSION = Some (Json (createLearnSession 1000 ''set1'' [''c1'', ''c2''] ''all'')),
             quota_exceeded = False \<rparr>"
          "createLearnSession 1000 ''set1'' [''c1'', ''c2''] ''all''" "1000 + 8 * 86400000"]
    loadLearnSession_expiry
      [of "\<lparr> LEARN_SESSION = Some (Json (createLearnSession 1000 ''set1'' [''c1'', ''c2''] ''all'')),
             quota_exceeded = False \<rparr>"
          "createLearnSession 1000 ''set1'' [''c1'', ''c2''] ''all''" "1000 + 6 * 86400000"]
  by (simp add: createLearnSession_def)

text \<open>
  C10. \<open>saveLearnSession\<close> called with an absent session removes the persisted session
  and returns \<open>true\<close>, whatever the storage held and even when its quota is exceeded;
  \<open>loadLearnSession\<close> afterwards returns absence.
\<close>

theorem saveLearnSession_null_clears:
  "saveLearnSession now None ls = (True, ls\<lparr>LEARN_SESSION := None\<rparr>) \<and>
   fst (loadLearnSession now' (snd (saveLearnSession now None ls))) = None"
  by (simp add: saveLearnSession_def loadLearnSession_def)


subsection \<open>Eviction\<close>

lemma distinct_store_put:
  assumes "distinct (map key st)"
  shows "distinct (map key (store_put e st))"
  using assms by (auto simp: store_put_def distinct_map_filter)

lemma mset_index_cursor: "mset (index_cursor st) = mset st"
  by (simp add: index_cursor_def)

lemma total_size_mset:
  assumes "mset xs = mset ys"
  shows "total_size xs = total_size ys"
proof -
  have "total_size zs = sum_mset (image_mset (\<lambda>e. int (entry_size e)) (mset zs))" for zs
    unfolding total_size_def by (metis mset_map sum_mset_sum_list)
  with assms show ?thesis by simp
qed

lemma distinct_key_mset:
  assumes "mset xs = mset ys" and "distinct (map key ys)"
  shows "distinct (map key xs)"
proof -
  from assms(1) have "mset (map key xs) = mset (map key ys)"
    by (metis mset_map)
  with assms(2) show ?thesis
    by (metis mset_eq_imp_distinct_iff)
qed

lemma filter_prefix_keys:
  assumes "distinct (map key es)"
  shows "filter (\<lambda>x. key x \<notin> key ` set (take n es)) es = drop n es"
proof -
  have split: "es = take n es @ drop n es" by simp
  from assms have "distinct (map key (take n es @ drop n es))" by simp
  then have disj: "key ` set (take n es) \<inter> key ` set (drop n es) = {}"
    by (simp only: map_append distinct_append set_map)
  have a: "filter (\<lambda>x. key x \<notin> key ` set (take n es)) (take n es) = []"
    by (auto simp: filter_empty_conv)
  have b: "filter (\<lambda>x. key x \<notin> key ` set (take n es)) (drop n es) = drop n es"
    using disj by (auto simp: filter_id_conv)
  have "filter (\<lambda>x. key x \<notin> key ` set (take n es)) (take n es @ drop n es) = drop n es"
    unfolding filter_append a b by simp
  then show ?thesis by simp
qed

lemma total_size_append: "total_size (xs @ ys) = total_size xs + total_size ys"
  by (simp add: total_size_def)

lemma total_size_take_Suc:
  "total_size (take (Suc m) (e # es)) = int (entry_size e) + total_size (take m es)"
  by (simp add: total_size_def)

lemma evict_loop_prefix:
  "\<exists>n \<le> length es.
     evict_loop mb tot rem es st = filter (\<lambda>x. key x \<notin> key ` set (take n es)) st \<and>
     (\<forall>m < n. \<not> real_of_int (tot - rem - total_size (take m es)) \<le> real_of_int mb * (8 / 10)) \<and>
     (n < length es \<longrightarrow>
        real_of_int (tot - rem - total_size (take n es)) \<le> real_of_int mb * (8 / 10))"
proof (induction es arbitrary: rem st)
  case Nil
  show ?case by simp
next
  case (Cons e es)
  show ?case
  proof (cases "real_of_int (tot - rem) \<le> real_of_int mb * (8 / 10)")
    case True
    then have "evict_loop mb tot rem (e # es) st = filter (\<lambda>x. key x \<notin> key ` set (take 0 (e # es))) st \<and>
     (\<forall>m < 0. \<not> real_of_int (tot - rem - total_size (take m (e # es))) \<le> real_of_int mb * (8 / 10)) \<and>
     (0 < length (e # es) \<longrightarrow>
        real_of_int (tot - rem - total_size (take 0 (e # es))) \<le> real_of_int mb * (8 / 10))"
      by (simp add: total_size_def)
    then show ?thesis by blast
  next
    case False
    from Cons.IH [of "rem + int (entry_size e)" "store_delete (key e) st"]
    obtain n where n: "n \<le> length es"
      and res: "evict_loop mb tot (rem + int (entry_size e)) es (store_delete (key e) st) =
                filter (\<lambda>x. key x \<notin> key ` set (take n es)) (store_delete (key e) st)"
      and before: "\<forall>m < n. \<not> real_of_int (tot - (rem + int (entry_size e)) - total_size (take m es))
                      \<le> real_of_int mb * (8 / 10)"
      and at: "n < length es \<longrightarrow>
                 real_of_int (tot - (rem + int (entry_size e)) - total_size (take n es))
                   \<le> real_of_int mb * (8 / 10)"
      by blast
    have 1: "Suc n \<le> length (e # es)" using n by simp
    have 2: "evict_loop mb tot rem (e # es) st =
             filter (\<lambda>x. key x \<notin> key ` set (take (Suc n) (e # es))) st"
      using False res by (simp add: store_delete_def conj_commute)
    have 3: "\<not> real_of_int (tot - rem - total_size (take m (e # es))) \<le> real_of_int mb * (8 / 10)"
      if "m < Suc n" for m
    proof (cases m)
      case 0
      with False show ?thesis by (simp add: total_size_def)
    next
      case (Suc m')
      with that have "m' < n" by simp
      with before have "\<not> real_of_int (tot - (rem + int (entry_size e)) - total_size (take m' es))
                      \<le> real_of_int mb * (8 / 10)" by blast
      moreover have "tot - rem - total_size (take m (e # es)) =
                     tot - (rem + int (entry_size e)) - total_size (take m' es)"
        unfolding Suc total_size_take_Suc by simp
      ultimately show ?thesis by simp
    qed
    have 4: "Suc n < length (e # es) \<longrightarrow>
        real_of_int (tot - rem - total_size (take (Suc n) (e # es))) \<le> real_of_int mb * (8 / 10)"
    proof
      assume "Suc n < length (e # es)"
      then have "n < length es" by simp
      with at have "real_of_int (tot - (rem + int (entry_size e)) - total_size (take n es))
                   \<le> real_of_int mb * (8 / 10)" by blast
      moreover have "tot - rem - total_size (take (Suc n) (e # es)) =
                     tot - (rem + int (entry_size e)) - total_size (take n es)"
        unfolding total_size_take_Suc by simp
      ultimately show "real_of_int (tot - rem - total_size (take (Suc n) (e # es))) \<le> real_of_int mb * (8 / 10)"
        by simp
    qed
    from 1 2 3 4 show ?thesis by blast
  qed
qed


lemma sorted_index_cursor: "sorted (map accessedAt (index_cursor st))"
proof -
  have "sorted (map (\<lambda>e. (accessedAt e, key e)) (index_cursor st))"
    unfolding index_cursor_def by (rule sorted_sort_key)
  then have "sorted_wrt (\<lambda>x y. (accessedAt x, key x) \<le> (accessedAt y, key y)) (index_cursor st)"
    by (simp only: sorted_map)
  then have "sorted_wrt (\<lambda>x y. accessedAt x \<le> accessedAt y) (index_cursor st)"
    by (rule sorted_wrt_mono_rel [rotated]) auto
  then show ?thesis
    by (simp only: sorted_map)
qed

lemma evictOldAudioEntries_spec:
  assumes d: "distinct (map key st1)"
    and es: "es = index_cursor st1"
    and mb: "maxBytes = int maxSizeMB * 2 ^ 20"
  shows "(total_size st1 \<le> maxBytes \<longrightarrow> evictOldAudioEntries maxSizeMB st1 = st1) \<and>
         (maxBytes < total_size st1 \<longrightarrow>
            (\<exists>n \<le> length es.
               mset (evictOldAudioEntries maxSizeMB st1) = mset (drop n es) \<and>
               set st1 - set (evictOldAudioEntries maxSizeMB st1) = set (take n es) \<and>
               real_of_int (total_size (evictOldAudioEntries maxSizeMB st1))
                 \<le> real_of_int maxBytes * (8 / 10) \<and>
               (\<forall>m < n. real_of_int maxBytes * (8 / 10) < real_of_int (total_size (drop m es)))))"
proof (intro conjI impI)
  have perm: "mset es = mset st1"
    by (simp add: es mset_index_cursor)
  then have tot: "total_size es = total_size st1"
    by (rule total_size_mset)
  have mb': "maxBytes = int maxSizeMB * 1024 * 1024"
    by (simp add: mb)
  {
    assume "total_size st1 \<le> maxBytes"
    then show "evictOldAudioEntries maxSizeMB st1 = st1"
      using tot by (simp add: evictOldAudioEntries_def Let_def es [symmetric] mb' [symmetric])
  }
  assume over: "maxBytes < total_size st1"
  let ?st' = "evictOldAudioEntries maxSizeMB st1"
  have run: "?st' = evict_loop maxBytes (total_size es) 0 es st1"
    using over tot by (simp add: evictOldAudioEntries_def Let_def es [symmetric] mb' [symmetric])
  from evict_loop_prefix [of es maxBytes "total_size es" 0 st1]
  obtain n where n: "n \<le> length es"
    and res: "evict_loop maxBytes (total_size es) 0 es st1 =
              filter (\<lambda>x. key x \<notin> key ` set (take n es)) st1"
    and before: "\<forall>m < n. \<not> real_of_int (total_size es - 0 - total_size (take m es))
                    \<le> real_of_int maxBytes * (8 / 10)"
    and at: "n < length es \<longrightarrow>
               real_of_int (total_size es - 0 - total_size (take n es))
                 \<le> real_of_int maxBytes * (8 / 10)"
    by blast
  have des: "distinct (map key es)"
    using perm d by (rule distinct_key_mset)
  then have dist_es: "distinct es"
    by (rule distinct_map [THEN iffD1, THEN conjunct1])
  have rest: "total_size es - total_size (take m es) = total_size (drop m es)" for m
  proof -
    have "total_size (take m es @ drop m es) = total_size (take m es) + total_size (drop m es)"
      by (rule total_size_append)
    then show ?thesis by simp
  qed
  have "mset (filter (\<lambda>x. key x \<notin> key ` set (take n es)) st1) =
        mset (filter (\<lambda>x. key x \<notin> key ` set (take n es)) es)"
    by (simp only: mset_filter perm)
  also have "\<dots> = mset (drop n es)"
    by (simp only: filter_prefix_keys [OF des])
  finally have kept: "mset ?st' = mset (drop n es)"
    by (simp only: run res)
  have kept_set: "set ?st' = set (drop n es)"
    using kept by (rule mset_eq_setD)
  have "distinct (take n es @ drop n es)"
    using dist_es by simp
  then have disj: "set (take n es) \<inter> set (drop n es) = {}"
    by (simp only: distinct_append)
  have "set st1 = set (take n es) \<union> set (drop n es)"
    using mset_eq_setD [OF perm] by (metis append_take_drop_id set_append)
  with disj kept_set have gone: "set st1 - set ?st' = set (take n es)"
    by auto
  have size': "total_size ?st' = total_size (drop n es)"
    using kept by (rule total_size_mset)
  have bound: "real_of_int (total_size ?st') \<le> real_of_int maxBytes * (8 / 10)"
  proof (cases "n < length es")
    case True
    with at rest [of n] size' show ?thesis by simp
  next
    case False
    with n have "drop n es = []" by simp
    then have "total_size (drop n es) = 0"
      by (simp add: total_size_def)
    with size' have "total_size ?st' = 0"
      by simp
    then show ?thesis by (simp add: mb)
  qed
  have minimal: "\<forall>m < n. real_of_int maxBytes * (8 / 10) < real_of_int (total_size (drop m es))"
  proof (intro allI impI)
    fix m assume "m < n"
    with before have "\<not> real_of_int (total_size es - 0 - total_size (take m es))
                    \<le> real_of_int maxBytes * (8 / 10)" by blast
    with rest [of m] show "real_of_int maxBytes * (8 / 10) < real_of_int (total_size (drop m es))"
      by simp
  qed
  from n kept gone bound minimal
  show "\<exists>n \<le> length es.
               mset ?st' = mset (drop n es) \<and>
               set st1 - set ?st' = set (take n es) \<and>
               real_of_int (total_size ?st') \<le> real_of_int maxBytes * (8 / 10) \<and>
               (\<forall>m < n. real_of_int maxBytes * (8 / 10) < real_of_int (total_size (drop m es)))"
    by blast
qed

text \<open>
  C3. For every cache state (an object store with one entry per key) and every insert
  through \<open>setCachedAudio\<close> with budget \<open>maxSizeMB\<close>: let \<open>st1\<close> be the store after the
  \<open>put\<close>, \<open>es\<close> its entries in cursor order (ascending \<open>accessedAt\<close>) and
  \<open>maxBytes = maxSizeMB * 2^20\<close>. If the total size of \<open>st1\<close> is at most \<open>maxBytes\<close>, nothing
  is deleted. If it exceeds \<open>maxBytes\<close>, the deleted entries are the first \<open>n\<close> of \<open>es\<close>
  (the oldest), the kept ones are the rest, the kept total is at most \<open>0.8 * maxBytes\<close>,
  and no shorter prefix reaches that bound.
\<close>

theorem setCachedAudio_eviction:
  assumes "distinct (map key (store db))" and "\<not> put_rejected db"
    and "st1 = store_put \<lparr> key = k, blob = b, entry_size = blob_size b, accessedAt = now \<rparr> (store db)"
    and "es = index_cursor st1"
    and "maxBytes = int maxSizeMB * 2 ^ 20"
  shows "\<exists>st'. setCachedAudio now k b maxSizeMB (Some db) = (True, Some (db\<lparr>store := st'\<rparr>)) \<and>
           mset es = mset st1 \<and> sorted (map accessedAt es) \<and>
           (total_size st1 \<le> maxBytes \<longrightarrow> st' = st1) \<and>
           (maxBytes < total_size st1 \<longrightarrow>
              (\<exists>n \<le> length es.
                 mset st' = mset (drop n es) \<and>
                 set st1 - set st' = set (take n es) \<and>
                 real_of_int (total_size st') \<le> real_of_int maxBytes * (8 / 10) \<and>
                 (\<forall>m < n. real_of_int maxBytes * (8 / 10) < real_of_int (total_size (drop m es)))))"
proof -
  have d: "distinct (map key st1)"
    unfolding assms(3) using assms(1) by (rule distinct_store_put)
  have call: "setCachedAudio now k b maxSizeMB (Some db) =
              (True, Some (db\<lparr>store := evictOldAudioEntries maxSizeMB st1\<rparr>))"
    using assms(2) by (simp add: setCachedAudio_def Let_def assms(3))
  have perm: "mset es = mset st1"
    by (simp add: assms(4) mset_index_cursor)
  have srt: "sorted (map accessedAt es)"
    unfolding assms(4) by (rule sorted_index_cursor)
  from call perm srt evictOldAudioEntries_spec [OF d assms(4) assms(5)]
  show ?thesis by blast
qed


theorem setCachedAudio_eviction_witness:
  "distinct (map key
     [\<lparr> key = ''a-v1'', blob = \<lparr> blob_tag = 1, blob_size = 500000 \<rparr>, entry_size = 500000, accessedAt = 10 \<rparr>,
      \<lparr> key = ''b-v1'', blob = \<lparr> blob_tag = 2, blob_size = 400000 \<rparr>, entry_size = 400000, accessedAt = 20 \<rparr>]) \<and>
   int 1 * 2 ^ 20 <
     total_size (store_put
       \<lparr> key = ''c-v1'', blob = \<lparr> blob_tag = 3, blob_size = 300000 \<rparr>, entry_size = 300000, accessedAt = 30 \<rparr>
       [\<lparr> key = ''a-v1'', blob = \<lparr> blob_tag = 1, blob_size = 500000 \<rparr>, entry_size = 500000, accessedAt = 10 \<rparr>,
        \<lparr> key = ''b-v1'', blob = \<lparr> blob_tag = 2, blob_size = 400000 \<rparr>, entry_size = 400000, accessedAt = 20 \<rparr>]) \<and>
   setCachedAudio 30 ''c-v1'' \<lparr> blob_tag = 3, blob_size = 300000 \<rparr> 1
     (Some \<lparr> store =
        [\<lparr> key = ''a-v1'', blob = \<lparr> blob_tag = 1, blob_size = 500000 \<rparr>, entry_size = 500000, accessedAt = 10 \<rparr>,
         \<lparr> key = ''b-v1'', blob = \<lparr> blob_tag = 2, blob_size = 400000 \<rparr>, entry_size = 400000, accessedAt = 20 \<rparr>],
        put_rejected = False \<rparr>)
   = (True, Some \<lparr> store =
        [\<lparr> key = ''b-v1'', blob = \<lparr> blob_tag = 2, blob_size = 400000 \<rparr>, entry_size = 400000, accessedAt = 20 \<rparr>,
         \<lparr> key = ''c-v1'', blob = \<lparr> blob_tag = 3, blob_size = 300000 \<rparr>, entry_size = 300000, accessedAt = 30 \<rparr>],
        put_rejected = False \<rparr>)"
  using setCachedAudio_eviction
    [of "\<lparr> store =
        [\<lparr> key = ''a-v1'', blob = \<lparr> blob_tag = 1, blob_size = 500000 \<rparr>, entry_size = 500000, accessedAt = 10 \<rparr>,
         \<lparr> key = ''b-v1'', blob = \<lparr> blob_tag = 2, blob_size = 400000 \<rparr>, entry_size = 400000, accessedAt = 20 \<rparr>],
        put_rejected = False \<rparr>"
      _ "''c-v1''" "\<lparr> blob_tag = 3, blob_size = 300000 \<rparr>" 30 _ _ 1, OF _ _ refl refl refl]
  by (simp add: setCachedAudio_def evictOldAudioEntries_def index_cursor_def store_put_def
      store_delete_def total_size_def Let_def)


subsection \<open>Requeueing\<close>

lemma random_slot:
  assumes "0 \<le> (u :: real)" and "u < 1"
  shows "\<lfloor>u * 3\<rfloor> + 2 \<in> {2, 3, 4 :: int}"
proof -
  from assms have "0 \<le> u * 3" and "u * 3 < 3" by simp_all
  then have "0 \<le> \<lfloor>u * 3\<rfloor>" and "\<lfloor>u * 3\<rfloor> < 3"
    by (simp_all add: floor_less_iff)
  then have "\<lfloor>u * 3\<rfloor> = 0 \<or> \<lfloor>u * 3\<rfloor> = 1 \<or> \<lfloor>u * 3\<rfloor> = 2"
    by linarith
  then show ?thesis by auto
qed

lemma updateSession_wrong:
  assumes q: "unseenIds s = c # rest" and u: "0 \<le> u" "u < 1"
    and i: "i = min (length rest) (nat (\<lfloor>u * 3\<rfloor> + 2))"
  shows "unseenIds (updateSession u False c s) = take i rest @ c # drop i rest"
    and "questionsAnswered (updateSession u False c s) = questionsAnswered s + 1"
    and "masteredIds (updateSession u False c s) = masteredIds s"
    and "correctCount (updateSession u False c s) = correctCount s"
proof -
  from random_slot [OF u] have k: "0 \<le> \<lfloor>u * 3\<rfloor> + 2" by auto
  define j where "j = min (int (length rest)) (\<lfloor>u * 3\<rfloor> + 2)"
  have j: "nat j = i" "\<not> j < 0" "min j (int (length rest)) = j"
    using k unfolding i j_def by linarith+
  have "splice_insert j c rest = take i rest @ c # drop i rest"
    by (simp add: splice_insert_def Let_def j)
  then show "unseenIds (updateSession u False c s) = take i rest @ c # drop i rest"
    using q by (simp add: updateSession_def Let_def j_def)
  show "questionsAnswered (updateSession u False c s) = questionsAnswered s + 1"
    by (simp add: updateSession_def Let_def)
  show "masteredIds (updateSession u False c s) = masteredIds s"
    by (simp add: updateSession_def Let_def)
  show "correctCount (updateSession u False c s) = correctCount s"
    by (simp add: updateSession_def Let_def)
qed

lemma find_current_card:
  assumes "c \<in> uuid ` set cs"
  obtains crd where "find (\<lambda>x. Some (uuid x) = Some c) cs = Some crd"
    and "crd \<in> set cs" and "uuid crd = c"
proof -
  from assms have "find (\<lambda>x. Some (uuid x) = Some c) cs \<noteq> None"
    by (auto simp: find_None_iff)
  then obtain crd where f: "find (\<lambda>x. Some (uuid x) = Some c) cs = Some crd"
    by blast
  then have "crd \<in> set cs" and "uuid crd = c"
    by (auto simp: find_Some_iff)
  with f that show thesis by blast
qed

lemma learnSession_updateCard [simp]:
  "learnSession (updateCard sid cid f app) = learnSession app"
  by (simp add: updateCard_def split: option.split)

text \<open>
  When the current question is the front \<open>c\<close> of the queue and its card is in the active
  set, a wrong answer in multiple-choice mode, and a grade below Good in SM-2 mode on a
  set whose cards have stats, pops \<open>c\<close> from the front and puts it back at index
  \<open>i = min (length rest) k\<close> of the remaining queue \<open>rest\<close>, where \<open>k = \<lfloor>3u\<rfloor> + 2\<close> is 2, 3
  or 4; \<open>questionsAnswered\<close> grows by one and \<open>masteredIds\<close> is unchanged. This is the
  state \<open>nextQuestion\<close> leaves; the handlers themselves do not restore it.
\<close>

lemma requeue_when_current_is_front:
  assumes "learnSession app = Some s"
    and "unseenIds s = c # rest" and "currentQuestionId s = Some c"
    and "getActiveSet app = Some st" and "c \<in> uuid ` set (cards st)"
    and "0 \<le> u" and "u < 1"
    and "i = min (length rest) (nat (\<lfloor>u * 3\<rfloor> + 2))"
  shows "nat (\<lfloor>u * 3\<rfloor> + 2) \<in> {2, 3, 4} \<and> i \<le> 4 \<and> (2 \<le> length rest \<longrightarrow> 2 \<le> i) \<and>
         (\<exists>s'. unseenIds s' = take i rest @ c # drop i rest \<and>
               unseenIds s' ! i = c \<and> c \<in> set (unseenIds s') \<and>
               questionsAnswered s' = questionsAnswered s + 1 \<and>
               masteredIds s' = masteredIds s \<and>
               learnSession (handleMultipleChoiceAnswer u False app) = Some s' \<and>
               (grade < GRADES_GOOD \<and> (\<forall>x \<in> set (cards st). stats x \<noteq> None) \<longrightarrow>
                  (\<exists>app'. handleGrade now u grade app = Inr app' \<and> learnSession app' = Some s')))"
proof -
  let ?s' = "updateSession u False c s"
  from random_slot [OF assms(6,7)] have k: "nat (\<lfloor>u * 3\<rfloor> + 2) \<in> {2, 3, 4}"
    by auto
  then have i4: "i \<le> 4" and i2: "2 \<le> length rest \<longrightarrow> 2 \<le> i"
    unfolding assms(8) by auto
  note upd = updateSession_wrong [OF assms(2) assms(6,7) assms(8)]
  have il: "i \<le> length rest"
    unfolding assms(8) by simp
  then have at: "unseenIds ?s' ! i = c"
    by (simp add: upd(1) nth_append)
  have mem: "c \<in> set (unseenIds ?s')"
    by (simp add: upd(1))
  from assms(5) obtain crd where f: "find (\<lambda>x. Some (uuid x) = Some c) (cards st) = Some crd"
    and inset: "crd \<in> set (cards st)" and cu: "uuid crd = c"
    by (rule find_current_card)
  have mc: "learnSession (handleMultipleChoiceAnswer u False app) = Some ?s'"
    using assms(1,3,4) f cu by (simp add: handleMultipleChoiceAnswer_def Let_def)
  have hg: "\<exists>app'. handleGrade now u grade app = Inr app' \<and> learnSession app' = Some ?s'"
    if g: "grade < GRADES_GOOD" and st: "\<forall>x \<in> set (cards st). stats x \<noteq> None"
  proof -
    from st inset obtain cs where cs: "stats crd = Some cs" by auto
    obtain r where r: "calculateSM2 now (Some cs) grade = Inr r"
      by (cases "grade = GRADES_AGAIN") (simp_all add: calculateSM2_def Let_def)
    from g have ng: "\<not> GRADES_GOOD \<le> grade" by simp
    show ?thesis
      using assms(1,3,4) f cu cs r ng by (simp add: handleGrade_def Let_def)
  qed
  from k i4 i2 upd(1,2,3) at mem mc hg show ?thesis
    by blast
qed


lemma requeue_when_current_is_front_example:
  "learnSession example_app = Some example_session \<and>
   unseenIds example_session = ''a'' # [''b'', ''c''] \<and>
   currentQuestionId example_session = Some ''a'' \<and>
   getActiveSet example_app = Some example_set \<and>
   ''a'' \<in> uuid ` set (cards example_set) \<and>
   (1 :: int) < GRADES_GOOD \<and> None \<notin> stats ` set (cards example_set) \<and>
   (0 :: real) \<le> 1 / 2 \<and> (1 / 2 :: real) < 1 \<and>
   (\<exists>s'. unseenIds s' = [''b'', ''c'', ''a''] \<and>
         questionsAnswered s' = 1 \<and> masteredIds s' = [] \<and>
         learnSession (handleMultipleChoiceAnswer (1 / 2) False example_app) = Some s' \<and>
         (\<exists>app'. handleGrade 1000 (1 / 2) 1 example_app = Inr app' \<and> learnSession app' = Some s'))"
proof -
  have h: "learnSession example_app = Some example_session"
    "unseenIds example_session = ''a'' # [''b'', ''c'']"
    "currentQuestionId example_session = Some ''a''"
    "getActiveSet example_app = Some example_set"
    "''a'' \<in> uuid ` set (cards example_set)"
    by (simp_all add: example_app_def example_session_def example_set_def example_card_def
        createLearnSession_def getActiveSet_def)
  have g: "(1 :: int) < GRADES_GOOD" "\<forall>x \<in> set (cards example_set). stats x \<noteq> None"
    by (simp_all add: GRADES_GOOD_def example_set_def example_card_def)
  have i: "(2 :: nat) = min (length [''b'', ''c'']) (nat (\<lfloor>(1 / 2 :: real) * 3\<rfloor> + 2))"
    by simp
  have q: "questionsAnswered example_session = 0" "masteredIds example_session = []"
    by (simp_all add: example_session_def createLearnSession_def)
  have n: "None \<notin> stats ` set (cards example_set)"
    by (simp add: example_set_def example_card_def)
  from requeue_when_current_is_front [OF h _ _ i, of 1 1000] g q h n show ?thesis
    by auto
qed


text \<open>
  C4. The handlers find the answered card by \<open>currentQuestionId\<close> but shift whatever is at
  the front of \<open>unseenIds\<close>, and after a wrong answer \<open>currentQuestionId\<close> still names the
  card just requeued. A second wrong answer before the next question is shown (a second
  grade key, say) therefore pops the card now at the front, which was never answered:
  from the queue \<open>a, b, c\<close> with current question \<open>a\<close>, two wrong answers leave
  \<open>c, a, a\<close>. Card \<open>b\<close> is gone from the queue without being mastered, and \<open>a\<close> is
  queued twice.
\<close>

theorem repeated_failing_answer_drops_card:
  "(case handleGrade 1000 (1 / 2) 1 example_app of
      Inl e \<Rightarrow> None
    | Inr app1 \<Rightarrow>
        (case handleGrade 2000 (1 / 2) 1 app1 of
           Inl e \<Rightarrow> None
         | Inr app2 \<Rightarrow>
             map_option (\<lambda>s. (currentQuestionId s, unseenIds s, masteredIds s, questionsAnswered s))
               (learnSession app2)))
   = Some (Some ''a'', [''c'', ''a'', ''a''], [], 2) \<and>
   map_option (\<lambda>s. (currentQuestionId s, unseenIds s, masteredIds s, questionsAnswered s))
     (learnSession (handleMultipleChoiceAnswer (1 / 2) False
        (handleMultipleChoiceAnswer (1 / 2) False example_app)))
   = Some (Some ''a'', [''c'', ''a'', ''a''], [], 2)"
  by (simp add: handleGrade_def handleMultipleChoiceAnswer_def updateSession_def splice_insert_def
      updateCard_def getActiveSet_def calculateSM2_def grade_defs MIN_EASE_def
      example_app_def example_session_def example_set_def example_card_def fresh_stats_def
      createLearnSession_def Let_def)


subsection \<open>Due queries\<close>

lemma isCardDue_iff:
  assumes "0 \<le> now"
  shows "isCardDue now c \<longleftrightarrow> stats c = None \<or> (\<exists>s. stats c = Some s \<and> dueAt s \<le> now)"
  using assms by (auto simp: isCardDue_def split: option.splits)

lemma filter_dueAt_with_stats:
  assumes "\<forall>c \<in> set cs. stats c \<noteq> None"
  shows "filter_dueAt now cs = Inr (filter (\<lambda>c. \<exists>s. stats c = Some s \<and> dueAt s \<le> now) cs)"
  using assms by (induction cs) auto

text \<open>
  C7. \<open>isCardDue\<close> treats a card without stats as due. \<open>getDueCards(setId)\<close> of state.js
  does not: on a set that holds such a card it throws a \<open>TypeError\<close>.
\<close>

theorem getDueCards_absent_stats_throws:
  "isCardDue 1000 (example_card ''n'' None) \<and>
   getDueCardsFromArray 1000 [example_card ''n'' None] = [example_card ''n'' None] \<and>
   getDueCards 1000 ''set2''
     \<lparr> allSets = [''set2'' \<mapsto> \<lparr> set_uuid = ''set2'', cards = [example_card ''n'' None] \<rparr>],
       activeSetId = None, learnSession = None \<rparr>
   = Inl TypeError"
  by (simp add: isCardDue_def getDueCardsFromArray_def getDueCards_def example_card_def)

subsection \<open>Pre-caching\<close>

lemma preCacheCards_while_draining:
  assumes "usePremium ttsState" and "elevenLabsKey ttsState \<noteq> []" and "isPreCaching m"
  shows "preCacheCards ttsState cs m =
         (m\<lparr>preCacheQueue :=
              List.map_filter
                (\<lambda>c. case c of None \<Rightarrow> None
                              | Some x \<Rightarrow> if card_term x \<noteq> [] then Some x else None) cs\<rparr>, None)"
  using assms by (simp add: preCacheCards_def Let_def)

text \<open>
  C5. With a drain in progress and two cards pending, \<open>preCacheCards\<close> called with one new
  card starts no second drain, but the queue afterwards holds the new card only: the
  two pending cards are dropped, not kept in front of it.
\<close>

theorem preCacheCards_drops_pending:
  "preCacheCards example_tts [Some (example_card ''d'' None)]
     \<lparr> preCacheQueue = [example_card ''b'' None, example_card ''c'' None], isPreCaching = True \<rparr>
   = (\<lparr> preCacheQueue = [example_card ''d'' None], isPreCaching = True \<rparr>, None) \<and>
   [example_card ''d'' None] \<noteq>
     [example_card ''b'' None, example_card ''c'' None] @ [example_card ''d'' None]"
  by (simp add: preCacheCards_def example_tts_def example_card_def Let_def List.map_filter_simps)


text \<open>
  The input passes the premium guard of \<open>preCacheCards\<close>, so the queue above is the one
  the assignment leaves.
\<close>

theorem preCacheCards_drops_pending_witness:
  "usePremium example_tts \<and> elevenLabsKey example_tts \<noteq> [] \<and>
   preCacheQueue (fst (preCacheCards example_tts [Some (example_card ''d'' None)]
     \<lparr> preCacheQueue = [example_card ''b'' None, example_card ''c'' None], isPreCaching = True \<rparr>))
   = [example_card ''d'' None] \<and>
   snd (preCacheCards example_tts [Some (example_card ''d'' None)]
     \<lparr> preCacheQueue = [example_card ''b'' None, example_card ''c'' None], isPreCaching = True \<rparr>)
   = None"
  using preCacheCards_drops_pending by (simp add: example_tts_def)

end
